theory Spec2Isabelle
  imports Main "HOL-Library.AList"
begin

section \<open>JavaScript values used by the store\<close>

text \<open>
  The store in \<^verbatim>\<open>src/index.js\<close> keeps caller-supplied JavaScript values in an array.
  The values modelled here are \<^verbatim>\<open>undefined\<close>, \<^verbatim>\<open>null\<close>, booleans, integer-valued
  numbers, strings and plain objects. An object is the list of its own enumerable
  properties in the order in which they were first defined; a property name occurs at
  most once in a real object, and a lookup takes the first entry of a name.
  Fractions, \<^verbatim>\<open>NaN\<close>, functions and inherited properties are not modelled: no built-in
  prototype defines \<^verbatim>\<open>valid\<close>, the only property the store ever reads by name.
\<close>

datatype jsval =
    JUndefined
  | JNull
  | JBool bool
  | JNum int
  | JStr string
  | JObj "(string \<times> jsval) list"

text \<open>The truthiness test of \<^verbatim>\<open>if (x)\<close>.\<close>

fun truthy :: "jsval \<Rightarrow> bool" where
  "truthy JUndefined = False"
| "truthy JNull = False"
| "truthy (JBool b) = b"
| "truthy (JNum n) = (n \<noteq> 0)"
| "truthy (JStr s) = (s \<noteq> [])"
| "truthy (JObj fs) = True"

text \<open>
  The two error objects the store builds with \<^verbatim>\<open>new Error(msg)\<close> followed by the
  assignments to \<^verbatim>\<open>status\<close> and \<^verbatim>\<open>data\<close>, and the \<^verbatim>\<open>TypeError\<close> the engine raises when
  a property of \<^verbatim>\<open>null\<close> or \<^verbatim>\<open>undefined\<close> is read.
\<close>

datatype error =
    HttpError (message: string) (status: int) (payload: jsval)
  | TypeError

text \<open>
  What a call gives back to its caller: a promise that is fulfilled, a promise that is
  rejected, or an exception raised before any promise exists.
\<close>

datatype 'a outcome = Resolved 'a | Rejected error | Thrown error

text \<open>
  \<^verbatim>\<open>list\<close> fulfils its promise either with one element of the array or with the array
  \<^verbatim>\<open>this.data\<close> itself. The second is a reference to the live array, not a copy, so it
  is kept as a token whose contents are read from the store.
\<close>

datatype found = Element jsval | Everything

record persistence =
  data :: "jsval list"
  model :: jsval

section \<open>Property access, spreading and array primitives\<close>

definition field :: "(string \<times> jsval) list \<Rightarrow> string \<Rightarrow> jsval" where
  "field fs k = (case map_of fs k of None \<Rightarrow> JUndefined | Some v \<Rightarrow> v)"

text \<open>The expression \<^verbatim>\<open>data.valid\<close>.\<close>

fun get_valid :: "jsval \<Rightarrow> error + jsval" where
  "get_valid JUndefined = Inl TypeError"
| "get_valid JNull = Inl TypeError"
| "get_valid (JObj fs) = Inr (field fs ''valid'')"
| "get_valid v = Inr JUndefined"

text \<open>Decimal property names of array indices.\<close>

definition digit :: "nat \<Rightarrow> char" where
  "digit d = ''0123456789'' ! d"

fun show_nat :: "nat \<Rightarrow> string" where
  "show_nat n = (if n < 10 then [digit n] else show_nat (n div 10) @ [digit (n mod 10)])"

declare show_nat.simps [simp del]

definition enumerate :: "'a list \<Rightarrow> (string \<times> 'a) list" where
  "enumerate xs = zip (map show_nat [0..<length xs]) xs"

text \<open>
  The own enumerable properties that a spread \<^verbatim>\<open>...v\<close> copies: those of an object,
  the characters of a string, nothing for the other primitives.
\<close>

fun own_props :: "jsval \<Rightarrow> (string \<times> jsval) list" where
  "own_props (JObj fs) = fs"
| "own_props (JStr s) = enumerate (map (\<lambda>c. JStr [c]) s)"
| "own_props v = []"

text \<open>
  What \<^verbatim>\<open>...el\<close> copies when \<^verbatim>\<open>el\<close> came from \<^verbatim>\<open>list\<close>: for the array itself these are
  its index properties.
\<close>

fun found_props :: "persistence \<Rightarrow> found \<Rightarrow> (string \<times> jsval) list" where
  "found_props s (Element r) = own_props r"
| "found_props s Everything = enumerate (data s)"

text \<open>
  The object literal \<^verbatim>\<open>{ ...a, ...b }\<close>: properties are defined one after the other on
  a fresh object, a later definition of a name replacing the value of the earlier one.
\<close>

definition spread :: "(string \<times> jsval) list \<Rightarrow> (string \<times> jsval) list \<Rightarrow> jsval" where
  "spread a b = JObj (fold (\<lambda>(k, v). AList.update k v) (a @ b) [])"

text \<open>The read \<^verbatim>\<open>this.data[id]\<close>; outside the array it gives \<^verbatim>\<open>undefined\<close>.\<close>

definition index :: "jsval list \<Rightarrow> int \<Rightarrow> jsval" where
  "index xs i = (if 0 \<le> i \<and> i < int (length xs) then xs ! nat i else JUndefined)"

text \<open>
  The write \<^verbatim>\<open>this.data[id] = v\<close>. Inside the array it overwrites; at or beyond the
  end JavaScript extends the array, the skipped positions reading as \<^verbatim>\<open>undefined\<close>;
  a negative number names an ordinary property and leaves the elements alone.
\<close>

definition store_at :: "jsval list \<Rightarrow> int \<Rightarrow> jsval \<Rightarrow> jsval list" where
  "store_at xs i v =
     (if i < 0 then xs
      else if i < int (length xs) then xs[nat i := v]
      else xs @ replicate (nat i - length xs) JUndefined @ [v])"

text \<open>The call \<^verbatim>\<open>this.data.splice(id, 1)\<close>.\<close>

definition splice1 :: "jsval list \<Rightarrow> int \<Rightarrow> jsval list" where
  "splice1 xs i =
     (let n = int (length xs);
          start = nat (if i < 0 then max (n + i) 0 else min i n)
      in take start xs @ drop (Suc start) xs)"

section \<open>The class \<^verbatim>\<open>Persistence\<close>\<close>

text \<open>
  Every method takes the store and gives back its result together with the store it
  leaves behind. Calls are made one after the other, each promise being settled before
  the next call starts, and stored values are not changed from outside the store.
\<close>

definition constructor :: "jsval \<Rightarrow> persistence" where
  "constructor m = \<lparr> data = [], model = m \<rparr>"

definition NotFound :: error where
  "NotFound = HttpError ''Resource not found'' 404 (JObj [])"

definition InvalidData :: error where
  "InvalidData = HttpError ''Invalid data'' 400 (JObj [(''valid'', JStr ''should be true'')])"

text \<open>
  \<^verbatim>\<open>validate\<close> returns \<^verbatim>\<open>null\<close> (here \<open>None\<close>) or an error object; reading
  \<^verbatim>\<open>data.valid\<close> may raise instead.
\<close>

definition validate :: "jsval \<Rightarrow> error + error option" where
  "validate d =
     (case get_valid d of
        Inl e \<Rightarrow> Inl e
      | Inr v \<Rightarrow> if truthy v then Inr None else Inr (Some InvalidData))"

text \<open>
  \<^verbatim>\<open>list(id)\<close>. The parameter is a number or is omitted (\<open>None\<close>); the test
  \<^verbatim>\<open>if (id)\<close> fails for an omitted id and for the number 0.
\<close>

fun given :: "int option \<Rightarrow> bool" where
  "given None = False"
| "given (Some n) = (n \<noteq> 0)"

definition list :: "persistence \<Rightarrow> int option \<Rightarrow> found outcome" where
  "list s i =
     (case i of
        None \<Rightarrow> Resolved Everything
      | Some n \<Rightarrow>
          if given (Some n) then
            (let el = index (data s) n
             in if truthy el then Resolved (Element el) else Rejected NotFound)
          else Resolved Everything)"

text \<open>
  \<^verbatim>\<open>create\<close> is not an \<^verbatim>\<open>async\<close> function and has no \<^verbatim>\<open>try\<close>: an exception of
  \<^verbatim>\<open>validate\<close> leaves it as an exception.
\<close>

definition create :: "persistence \<Rightarrow> jsval \<Rightarrow> int outcome \<times> persistence" where
  "create s d =
     (case validate d of
        Inl e \<Rightarrow> (Thrown e, s)
      | Inr (Some err) \<Rightarrow> (Rejected err, s)
      | Inr None \<Rightarrow>
          (let s' = s\<lparr>data := data s @ [d]\<rparr>
           in (Resolved (int (length (data s')) - 1), s')))"

text \<open>
  \<^verbatim>\<open>update\<close>, \<^verbatim>\<open>replace\<close> and \<^verbatim>\<open>delete\<close> are \<^verbatim>\<open>async\<close> functions whose body is one
  \<^verbatim>\<open>try\<close> block: a rejection of \<^verbatim>\<open>list\<close> and any exception end in
  \<^verbatim>\<open>Promise.reject(e)\<close>. Their id is a number.
\<close>

definition update :: "persistence \<Rightarrow> int \<Rightarrow> jsval \<Rightarrow> found outcome \<times> persistence" where
  "update s i d =
     (case list s (Some i) of
        Rejected e \<Rightarrow> (Rejected e, s)
      | Thrown e \<Rightarrow> (Rejected e, s)
      | Resolved el \<Rightarrow>
          (case validate (spread (found_props s el) (own_props d)) of
             Inl e \<Rightarrow> (Rejected e, s)
           | Inr (Some err) \<Rightarrow> (Rejected err, s)
           | Inr None \<Rightarrow>
               (Resolved el,
                s\<lparr>data := store_at (data s) i (spread (found_props s el) (own_props d))\<rparr>)))"

definition replace :: "persistence \<Rightarrow> int \<Rightarrow> jsval \<Rightarrow> found outcome \<times> persistence" where
  "replace s i d =
     (case list s (Some i) of
        Rejected e \<Rightarrow> (Rejected e, s)
      | Thrown e \<Rightarrow> (Rejected e, s)
      | Resolved el \<Rightarrow>
          (case validate d of
             Inl e \<Rightarrow> (Rejected e, s)
           | Inr (Some err) \<Rightarrow> (Rejected err, s)
           | Inr None \<Rightarrow> (Resolved el, s\<lparr>data := store_at (data s) i d\<rparr>)))"

definition delete :: "persistence \<Rightarrow> int \<Rightarrow> found outcome \<times> persistence" where
  "delete s i =
     (case list s (Some i) of
        Rejected e \<Rightarrow> (Rejected e, s)
      | Thrown e \<Rightarrow> (Rejected e, s)
      | Resolved el \<Rightarrow> (Resolved el, s\<lparr>data := splice1 (data s) i\<rparr>))"

text \<open>
  What the caller holds once a promise of \<^verbatim>\<open>list\<close>, \<^verbatim>\<open>update\<close>, \<^verbatim>\<open>replace\<close> or
  \<^verbatim>\<open>delete\<close> is fulfilled, read in the store the call left behind: the element, or
  the current contents of the array.
\<close>

datatype seen = One jsval | Many "jsval list"

fun view :: "persistence \<Rightarrow> found \<Rightarrow> seen" where
  "view s (Element r) = One r"
| "view s Everything = Many (data s)"

section \<open>Stored records and sequences of calls\<close>

text \<open>A value passes the reference validation policy.\<close>

definition valid_record :: "jsval \<Rightarrow> bool" where
  "valid_record r = (case get_valid r of Inl e \<Rightarrow> False | Inr v \<Rightarrow> truthy v)"

definition all_valid :: "persistence \<Rightarrow> bool" where
  "all_valid s = list_all valid_record (data s)"

datatype call =
    List "int option"
  | Create jsval
  | Update int jsval
  | Replace int jsval
  | Delete int
  | Validate jsval

fun step :: "persistence \<Rightarrow> call \<Rightarrow> persistence" where
  "step s (List i) = s"
| "step s (Create d) = snd (create s d)"
| "step s (Update i d) = snd (update s i d)"
| "step s (Replace i d) = snd (replace s i d)"
| "step s (Delete i) = snd (delete s i)"
| "step s (Validate d) = s"

definition run :: "persistence \<Rightarrow> call list \<Rightarrow> persistence" where
  "run s cs = foldl step s cs"

section \<open>Validation and lookup\<close>

lemma validate_object:
  "validate (JObj fs) = (if truthy (field fs ''valid'') then Inr None else Inr (Some InvalidData))"
  by (simp add: validate_def)

lemma validate_accepts: "validate d = Inr None \<Longrightarrow> valid_record d"
  by (auto simp: validate_def valid_record_def split: sum.splits if_splits)

lemma validate_spread_total: "\<exists>r. validate (spread a b) = Inr r"
  by (simp add: spread_def validate_object)

lemma list_resolved_cases:
  assumes "list s (Some i) = Resolved el"
  shows "(i = 0 \<and> el = Everything) \<or>
         (0 < i \<and> i < int (length (data s)) \<and> el = Element (data s ! nat i) \<and> truthy (data s ! nat i))"
  using assms by (auto simp: list_def index_def Let_def split: if_splits)

lemma NotFound_fields: "status NotFound = 404 \<and> payload NotFound = JObj []"
  by (simp add: NotFound_def)

lemma list_not_thrown: "list s i \<noteq> Thrown e"
  by (auto simp: list_def Let_def split: option.splits)


section \<open>Ids other than 0\<close>

lemma list_missing:
  "i \<noteq> 0 \<Longrightarrow> \<not> truthy (index (data s) i) \<Longrightarrow> list s (Some i) = Rejected NotFound"
  by (simp add: list_def)

lemma list_occupied:
  "0 < i \<Longrightarrow> i < int (length (data s)) \<Longrightarrow> truthy (data s ! nat i) \<Longrightarrow>
   list s (Some i) = Resolved (Element (data s ! nat i))"
  by (simp add: list_def index_def)

lemma missing_id_rejected:
  assumes "i \<noteq> 0" and "\<not> truthy (index (data s) i)"
  shows "list s (Some i) = Rejected NotFound"
    and "update s i d = (Rejected NotFound, s)"
    and "replace s i d = (Rejected NotFound, s)"
    and "delete s i = (Rejected NotFound, s)"
  using assms by (simp_all add: list_missing update_def replace_def delete_def)

lemma create_accepts:
  assumes "truthy (field fs ''valid'')"
  shows "create s (JObj fs) = (Resolved (int (length (data s))), s\<lparr>data := data s @ [JObj fs]\<rparr>)"
  using assms by (simp add: create_def validate_object Let_def)

lemma create_then_list:
  assumes "truthy (field fs ''valid'')" and "data s \<noteq> []"
    and "create s (JObj fs) = (Resolved n, s')"
  shows "list s' (Some n) = Resolved (Element (JObj fs))"
  using assms by (auto simp: create_accepts list_def index_def)

lemma map_of_fold_update:
  "map_of (fold (\<lambda>(k, v). AList.update k v) xs acc) = map_of acc ++ map_of (rev xs)"
proof (induction xs arbitrary: acc)
  case Nil
  show ?case by simp
next
  case (Cons x xs)
  obtain k v where x: "x = (k, v)" by (cases x)
  have "map_of (fold (\<lambda>(k, v). AList.update k v) (x # xs) acc) =
        map_of (AList.update k v acc) ++ map_of (rev xs)"
    using Cons.IH [of "AList.update k v acc"] x by simp
  also have "\<dots> = map_of acc ++ map_of (rev (x # xs))"
    by (simp add: x update_conv' map_add_def fun_eq_iff split: option.splits)
  finally show ?case .
qed

lemma map_of_rev_distinct:
  "distinct (map fst xs) \<Longrightarrow> map_of (rev xs) = map_of xs"
proof (induction xs)
  case Nil
  show ?case by simp
next
  case (Cons x xs)
  obtain k v where x: "x = (k, v)" by (cases x)
  from Cons.prems x have "map_of xs k = None"
    by (simp add: map_of_eq_None_iff)
  with Cons x show ?case
    by (auto simp: fun_eq_iff map_add_def split: option.splits)
qed

lemma field_spread:
  assumes "distinct (map fst a)" and "distinct (map fst b)"
  shows "field (own_props (spread a b)) k =
         (case map_of b k of Some v \<Rightarrow> v | None \<Rightarrow> field a k)"
proof -
  have "map_of (own_props (spread a b)) = map_of a ++ map_of b"
    using assms by (simp add: spread_def map_of_fold_update map_of_rev_distinct)
  then show ?thesis
    by (simp add: field_def map_add_def split: option.splits)
qed

lemma update_occupied:
  assumes "0 < i" and "i < int (length (data s))" and "data s ! nat i = JObj fs"
  shows "validate (spread fs (own_props d)) = Inr None \<Longrightarrow>
           update s i d =
             (Resolved (Element (JObj fs)),
              s\<lparr>data := (data s)[nat i := spread fs (own_props d)]\<rparr>)"
    and "validate (spread fs (own_props d)) = Inr (Some err) \<Longrightarrow>
           update s i d = (Rejected err, s)"
  using assms by (simp_all add: update_def list_occupied store_at_def)

lemma replace_occupied:
  assumes "0 < i" and "i < int (length (data s))" and "truthy (data s ! nat i)"
  shows "validate d = Inr None \<Longrightarrow>
           replace s i d = (Resolved (Element (data s ! nat i)), s\<lparr>data := (data s)[nat i := d]\<rparr>)"
    and "validate d = Inr (Some err) \<Longrightarrow> replace s i d = (Rejected err, s)"
  using assms by (simp_all add: replace_def list_occupied store_at_def)

lemma delete_occupied:
  assumes "0 < i" and "i < int (length (data s))" and "truthy (data s ! nat i)"
  shows "delete s i =
           (Resolved (Element (data s ! nat i)),
            s\<lparr>data := take (nat i) (data s) @ drop (Suc (nat i)) (data s)\<rparr>)"
  using assms by (simp add: delete_def list_occupied splice1_def min_def Let_def)

lemma removed_shift:
  assumes "n < length xs"
  shows "length (take n xs @ drop (Suc n) xs) = length xs - 1"
    and "j < n \<Longrightarrow> (take n xs @ drop (Suc n) xs) ! j = xs ! j"
    and "n \<le> j \<Longrightarrow> Suc j < length xs \<Longrightarrow> (take n xs @ drop (Suc n) xs) ! j = xs ! Suc j"
  using assms by (auto simp: nth_append min_def)

section \<open>Stored records stay valid\<close>

lemma list_all_store_at:
  "0 \<le> i \<Longrightarrow> i \<le> int (length xs) \<Longrightarrow> list_all P xs \<Longrightarrow> P v \<Longrightarrow> list_all P (store_at xs i v)"
  by (auto simp: store_at_def list_all_iff dest: set_update_subset_insert [THEN subsetD])

lemma list_all_splice1: "list_all P xs \<Longrightarrow> list_all P (splice1 xs i)"
  by (auto simp: splice1_def Let_def list_all_iff dest: in_set_takeD in_set_dropD)

lemma create_keeps_valid: "all_valid s \<Longrightarrow> all_valid (snd (create s d))"
  by (auto simp: create_def all_valid_def Let_def validate_accepts split: sum.splits option.splits)

lemma update_keeps_valid: "all_valid s \<Longrightarrow> all_valid (snd (update s i d))"
proof (cases "list s (Some i)")
  case (Resolved el)
  assume inv: "all_valid s"
  from list_resolved_cases [OF Resolved] have bounds: "0 \<le> i" "i \<le> int (length (data s))"
    by auto
  show ?thesis
  proof (cases "validate (spread (found_props s el) (own_props d))")
    case (Inl e)
    with Resolved inv show ?thesis by (simp add: update_def)
  next
    case (Inr r)
    show ?thesis
    proof (cases r)
      case None
      with Inr have "valid_record (spread (found_props s el) (own_props d))"
        by (simp add: validate_accepts)
      with inv bounds have "list_all valid_record
          (store_at (data s) i (spread (found_props s el) (own_props d)))"
        by (simp add: all_valid_def list_all_store_at)
      with Resolved Inr None show ?thesis by (simp add: update_def all_valid_def)
    next
      case (Some err)
      with Resolved Inr inv show ?thesis by (simp add: update_def)
    qed
  qed
qed (simp_all add: update_def)

lemma replace_keeps_valid: "all_valid s \<Longrightarrow> all_valid (snd (replace s i d))"
proof (cases "list s (Some i)")
  case (Resolved el)
  assume inv: "all_valid s"
  from list_resolved_cases [OF Resolved] have bounds: "0 \<le> i" "i \<le> int (length (data s))"
    by auto
  show ?thesis
  proof (cases "validate d")
    case (Inl e)
    with Resolved inv show ?thesis by (simp add: replace_def)
  next
    case (Inr r)
    show ?thesis
    proof (cases r)
      case None
      with Inr have "valid_record d" by (simp add: validate_accepts)
      with inv bounds have "list_all valid_record (store_at (data s) i d)"
        by (simp add: all_valid_def list_all_store_at)
      with Resolved Inr None show ?thesis by (simp add: replace_def all_valid_def)
    next
      case (Some err)
      with Resolved Inr inv show ?thesis by (simp add: replace_def)
    qed
  qed
qed (simp_all add: replace_def)

lemma delete_keeps_valid: "all_valid s \<Longrightarrow> all_valid (snd (delete s i))"
  by (cases "list s (Some i)") (simp_all add: delete_def all_valid_def list_all_splice1)

lemma step_keeps_valid: "all_valid s \<Longrightarrow> all_valid (step s c)"
  by (cases c)
    (simp_all add: create_keeps_valid update_keeps_valid replace_keeps_valid delete_keeps_valid)

lemma run_keeps_valid: "all_valid s \<Longrightarrow> all_valid (run s cs)"
  unfolding run_def by (induction cs arbitrary: s) (simp_all add: step_keeps_valid)

lemma constructor_valid: "all_valid (constructor m)"
  by (simp add: all_valid_def constructor_def)

section \<open>The claims\<close>

lemmas call_defs = constructor_def create_def update_def replace_def delete_def list_def
  validate_def index_def store_at_def splice1_def spread_def enumerate_def field_def
  show_nat.simps digit_def InvalidData_def NotFound_def Let_def

text \<open>
  Claim C1. On a fresh store, \<^verbatim>\<open>create({valid:true, name:"x"})\<close> resolves with 0 and
  \<^verbatim>\<open>list()\<close> resolves with the array holding that record; the claim continues with
  \<^verbatim>\<open>update(0, {name:"y"})\<close> resolving with the old record and \<^verbatim>\<open>delete(0)\<close> resolving
  with the updated one. The code, run on this scenario: \<^verbatim>\<open>list(0)\<close> inside \<^verbatim>\<open>update\<close>
  takes the branch for a missing id, the array is spread instead of the record, the
  merged object \<^verbatim>\<open>{0: {valid:true, name:"x"}, name:"y"}\<close> has no \<^verbatim>\<open>valid\<close>, and the
  promise is rejected with the status 400 error, the record staying as it was;
  \<^verbatim>\<open>delete(0)\<close> then removes the record and resolves with the array itself, empty by
  then.
\<close>

theorem scenario_on_fresh_store:
  "create (constructor (JObj [])) (JObj [(''valid'', JBool True), (''name'', JStr ''x'')]) =
     (Resolved 0,
      \<lparr>data = [JObj [(''valid'', JBool True), (''name'', JStr ''x'')]], model = JObj []\<rparr>)
   \<and> list \<lparr>data = [JObj [(''valid'', JBool True), (''name'', JStr ''x'')]], model = JObj []\<rparr> None =
     Resolved Everything
   \<and> view \<lparr>data = [JObj [(''valid'', JBool True), (''name'', JStr ''x'')]], model = JObj []\<rparr>
        Everything = Many [JObj [(''valid'', JBool True), (''name'', JStr ''x'')]]
   \<and> update \<lparr>data = [JObj [(''valid'', JBool True), (''name'', JStr ''x'')]], model = JObj []\<rparr> 0
        (JObj [(''name'', JStr ''y'')]) =
     (Rejected (HttpError ''Invalid data'' 400 (JObj [(''valid'', JStr ''should be true'')])),
      \<lparr>data = [JObj [(''valid'', JBool True), (''name'', JStr ''x'')]], model = JObj []\<rparr>)
   \<and> delete \<lparr>data = [JObj [(''valid'', JBool True), (''name'', JStr ''x'')]], model = JObj []\<rparr> 0 =
     (Resolved Everything, \<lparr>data = [], model = JObj []\<rparr>)
   \<and> view \<lparr>data = [], model = JObj []\<rparr> Everything = Many []"
  by (simp add: call_defs)

text \<open>
  Claim C2. An id that no record occupies makes \<^verbatim>\<open>list\<close>, \<^verbatim>\<open>update\<close>, \<^verbatim>\<open>replace\<close> and
  \<^verbatim>\<open>delete\<close> reject with the 404 error and leave the collection alone; the claim
  includes id 0 on an empty store. For every id other than 0 this is
  \<open>missing_id_rejected\<close>. The code at id 0 on the empty store: \<^verbatim>\<open>list(0)\<close> resolves
  with the empty array, \<^verbatim>\<open>update\<close> and \<^verbatim>\<open>replace\<close> resolve and store a record at
  position 0, and \<^verbatim>\<open>delete\<close> resolves with the empty array.
\<close>

theorem unoccupied_zero_on_empty_store:
  "list (constructor (JObj [])) (Some 0) = Resolved Everything
   \<and> view (constructor (JObj [])) Everything = Many []
   \<and> update (constructor (JObj [])) 0 (JObj [(''valid'', JBool True)]) =
       (Resolved Everything, \<lparr>data = [JObj [(''valid'', JBool True)]], model = JObj []\<rparr>)
   \<and> replace (constructor (JObj [])) 0 (JObj [(''valid'', JBool True)]) =
       (Resolved Everything, \<lparr>data = [JObj [(''valid'', JBool True)]], model = JObj []\<rparr>)
   \<and> delete (constructor (JObj [])) 0 = (Resolved Everything, constructor (JObj []))"
  by (simp add: call_defs)

text \<open>
  Claim C3. \<^verbatim>\<open>create(r)\<close> with a truthy \<^verbatim>\<open>r.valid\<close> appends \<^verbatim>\<open>r\<close>, resolves with the
  former length, and \<^verbatim>\<open>list\<close> of that id gives \<^verbatim>\<open>r\<close> back. The first three parts are
  \<open>create_accepts\<close>, and the last one holds on a store that was not empty
  (\<open>create_then_list\<close>). The code on the empty store: the id is 0, and \<^verbatim>\<open>list(0)\<close>
  resolves with the whole array, not with the record.
\<close>

theorem first_created_record_not_listed:
  "create (constructor (JObj [])) (JObj [(''valid'', JBool True)]) =
     (Resolved 0, \<lparr>data = [JObj [(''valid'', JBool True)]], model = JObj []\<rparr>)
   \<and> list \<lparr>data = [JObj [(''valid'', JBool True)]], model = JObj []\<rparr> (Some 0) =
       Resolved Everything
   \<and> list \<lparr>data = [JObj [(''valid'', JBool True)]], model = JObj []\<rparr> (Some 0) \<noteq>
       Resolved (Element (JObj [(''valid'', JBool True)]))"
  by (simp add: call_defs)

text \<open>
  Claim C4. In every store, \<^verbatim>\<open>list\<close> called with the id 0 or without an id resolves
  with the array \<^verbatim>\<open>this.data\<close>, whose contents are the whole collection in insertion
  order; it does not resolve with a single record and it never rejects or raises.
\<close>

theorem falsy_id_lists_everything:
  assumes "\<not> given i"
  shows "list s i = Resolved Everything \<and> view s Everything = Many (data s)
         \<and> list s i \<noteq> Resolved (Element r) \<and> list s i \<noteq> Rejected e \<and> list s i \<noteq> Thrown e"
  using assms by (cases i) (simp_all add: list_def)

text \<open>The ids 0 and omitted on a store of two records.\<close>

theorem falsy_id_lists_everything_witness:
  "\<not> given (Some 0) \<and> \<not> given None
   \<and> list \<lparr>data = [JObj [(''valid'', JBool True)], JObj [(''valid'', JNum 1)]], model = JNull\<rparr> (Some 0)
       = Resolved Everything
   \<and> list \<lparr>data = [JObj [(''valid'', JBool True)], JObj [(''valid'', JNum 1)]], model = JNull\<rparr> None
       = Resolved Everything
   \<and> view \<lparr>data = [JObj [(''valid'', JBool True)], JObj [(''valid'', JNum 1)]], model = JNull\<rparr>
        Everything = Many [JObj [(''valid'', JBool True)], JObj [(''valid'', JNum 1)]]"
  using falsy_id_lists_everything [of "Some 0"
      "\<lparr>data = [JObj [(''valid'', JBool True)], JObj [(''valid'', JNum 1)]], model = JNull\<rparr>"]
    falsy_id_lists_everything [of None
      "\<lparr>data = [JObj [(''valid'', JBool True)], JObj [(''valid'', JNum 1)]], model = JNull\<rparr>"]
  by simp

text \<open>
  Claim C5. For an object whose \<^verbatim>\<open>valid\<close> is absent or falsy, \<^verbatim>\<open>validate\<close> returns the
  error object as a value, \<^verbatim>\<open>create\<close> rejects with it in every store and leaves the
  store, hence the length of the collection, unchanged; the error has status 400 and
  the payload \<^verbatim>\<open>{ valid: "should be true" }\<close>.
\<close>

theorem create_rejects_invalid:
  assumes "map_of fs ''valid'' = None \<or> (\<exists>v. map_of fs ''valid'' = Some v \<and> \<not> truthy v)"
  shows "validate (JObj fs) = Inr (Some InvalidData)
         \<and> create s (JObj fs) = (Rejected InvalidData, s)
         \<and> length (data (snd (create s (JObj fs)))) = length (data s)
         \<and> status InvalidData = 400
         \<and> payload InvalidData = JObj [(''valid'', JStr ''should be true'')]"
proof -
  from assms have "\<not> truthy (field fs ''valid'')"
    by (auto simp: field_def)
  then show ?thesis
    by (simp add: validate_object create_def InvalidData_def)
qed

text \<open>The records \<^verbatim>\<open>{valid:false}\<close> and \<^verbatim>\<open>{name:"x"}\<close> on a fresh store.\<close>

theorem create_rejects_invalid_witness:
  "(map_of [(''valid'', JBool False)] ''valid'' = Some (JBool False) \<and> \<not> truthy (JBool False))
   \<and> map_of [(''name'', JStr ''x'')] ''valid'' = None
   \<and> create (constructor (JObj [])) (JObj [(''valid'', JBool False)]) =
       (Rejected InvalidData, constructor (JObj []))
   \<and> create (constructor (JObj [])) (JObj [(''name'', JStr ''x'')]) =
       (Rejected InvalidData, constructor (JObj []))
   \<and> data (constructor (JObj [])) = []"
  using create_rejects_invalid [of "[(''valid'', JBool False)]" "constructor (JObj [])"]
    create_rejects_invalid [of "[(''name'', JStr ''x'')]" "constructor (JObj [])"]
  by (simp add: constructor_def)

text \<open>
  Claim C6. For an occupied id, \<^verbatim>\<open>update\<close> stores the existing record overlaid with the
  data and resolves with the previous record whenever that overlay passes validation;
  for the ids from 1 on this is \<open>update_occupied\<close> with \<open>field_spread\<close>. The code at
  the occupied id 0: the overlay of \<^verbatim>\<open>{valid:true, name:"x"}\<close> with \<^verbatim>\<open>{name:"y"}\<close>
  passes validation, yet the call is rejected with the status 400 error, because the
  array was spread instead of the record; with data that carries its own \<^verbatim>\<open>valid\<close> the
  call stores the old record under the property \<^verbatim>\<open>0\<close> of the new one and resolves
  with the array.
\<close>

theorem update_at_zero_merges_whole_array:
  "validate (spread (own_props (JObj [(''valid'', JBool True), (''name'', JStr ''x'')]))
                    (own_props (JObj [(''name'', JStr ''y'')]))) = Inr None
   \<and> update \<lparr>data = [JObj [(''valid'', JBool True), (''name'', JStr ''x'')]], model = JObj []\<rparr> 0
        (JObj [(''name'', JStr ''y'')]) =
       (Rejected InvalidData,
        \<lparr>data = [JObj [(''valid'', JBool True), (''name'', JStr ''x'')]], model = JObj []\<rparr>)
   \<and> update \<lparr>data = [JObj [(''valid'', JBool True), (''name'', JStr ''x'')]], model = JObj []\<rparr> 0
        (JObj [(''valid'', JBool True), (''name'', JStr ''y'')]) =
       (Resolved Everything,
        \<lparr>data = [JObj [(''0'', JObj [(''valid'', JBool True), (''name'', JStr ''x'')]),
                        (''valid'', JBool True), (''name'', JStr ''y'')]],
           model = JObj []\<rparr>)"
  by (simp add: call_defs)

text \<open>
  Claim C7. For an occupied id, \<^verbatim>\<open>replace\<close> validates the data alone, stores it as it
  is and resolves with the previous record; for the ids from 1 on this is
  \<open>replace_occupied\<close>. The code at the occupied id 0 stores the data but resolves with
  the array, which by then holds the new record, and not with the previous record.
\<close>

theorem replace_at_zero_resolves_with_array:
  "replace \<lparr>data = [JObj [(''valid'', JBool True), (''name'', JStr ''x'')]], model = JObj []\<rparr> 0
        (JObj [(''valid'', JBool True)]) =
     (Resolved Everything, \<lparr>data = [JObj [(''valid'', JBool True)]], model = JObj []\<rparr>)
   \<and> view \<lparr>data = [JObj [(''valid'', JBool True)]], model = JObj []\<rparr> Everything =
       Many [JObj [(''valid'', JBool True)]]
   \<and> fst (replace \<lparr>data = [JObj [(''valid'', JBool True), (''name'', JStr ''x'')]], model = JObj []\<rparr>
        0 (JObj [(''valid'', JBool True)])) \<noteq>
       Resolved (Element (JObj [(''valid'', JBool True), (''name'', JStr ''x'')]))"
  by (simp add: call_defs)

text \<open>
  Claim C8. For an occupied id, \<^verbatim>\<open>delete\<close> removes the record at that position, moves
  the later ones down by one and resolves with the removed record; for the ids from 1
  on this is \<open>delete_occupied\<close> with \<open>removed_shift\<close>. The code at the occupied id 0
  removes the first record but resolves with the array of the remaining records, and
  not with the removed record.
\<close>

theorem delete_at_zero_resolves_with_array:
  "delete \<lparr>data = [JObj [(''valid'', JBool True), (''name'', JStr ''a'')],
                    JObj [(''valid'', JBool True), (''name'', JStr ''b'')]], model = JObj []\<rparr> 0 =
     (Resolved Everything,
      \<lparr>data = [JObj [(''valid'', JBool True), (''name'', JStr ''b'')]], model = JObj []\<rparr>)
   \<and> view \<lparr>data = [JObj [(''valid'', JBool True), (''name'', JStr ''b'')]], model = JObj []\<rparr>
        Everything = Many [JObj [(''valid'', JBool True), (''name'', JStr ''b'')]]
   \<and> fst (delete \<lparr>data = [JObj [(''valid'', JBool True), (''name'', JStr ''a'')],
                    JObj [(''valid'', JBool True), (''name'', JStr ''b'')]], model = JObj []\<rparr> 0) \<noteq>
       Resolved (Element (JObj [(''valid'', JBool True), (''name'', JStr ''a'')]))"
  by (simp add: call_defs)

text \<open>
  Claim C9. The store built by the constructor holds only values with a truthy
  \<^verbatim>\<open>valid\<close>; every call keeps it so, from any store that is so; hence it is so after
  any sequence of calls on a fresh store. \<^verbatim>\<open>list\<close> and \<^verbatim>\<open>validate\<close> change nothing.
\<close>

theorem stored_records_stay_valid:
  "all_valid (constructor m)
   \<and> (all_valid s \<longrightarrow> all_valid (step s c))
   \<and> all_valid (run (constructor m) cs)
   \<and> step s (List i) = s \<and> step s (Validate d) = s"
  by (simp add: constructor_valid step_keeps_valid run_keeps_valid)

text \<open>An update at id 0 on a store of one record.\<close>

theorem stored_records_stay_valid_witness:
  "all_valid \<lparr>data = [JObj [(''valid'', JBool True)]], model = JNull\<rparr>
   \<and> all_valid (step \<lparr>data = [JObj [(''valid'', JBool True)]], model = JNull\<rparr>
        (Update 0 (JObj [(''valid'', JNum 7)])))
   \<and> step \<lparr>data = [JObj [(''valid'', JBool True)]], model = JNull\<rparr>
        (Update 0 (JObj [(''valid'', JNum 7)])) =
       \<lparr>data = [JObj [(''0'', JObj [(''valid'', JBool True)]), (''valid'', JNum 7)]], model = JNull\<rparr>"
proof -
  have h: "all_valid \<lparr>data = [JObj [(''valid'', JBool True)]], model = JNull\<rparr>"
    by (simp add: all_valid_def valid_record_def field_def)
  have e: "step \<lparr>data = [JObj [(''valid'', JBool True)]], model = JNull\<rparr>
        (Update 0 (JObj [(''valid'', JNum 7)])) =
       \<lparr>data = [JObj [(''0'', JObj [(''valid'', JBool True)]), (''valid'', JNum 7)]], model = JNull\<rparr>"
    by (simp add: call_defs)
  from stored_records_stay_valid [of JNull "\<lparr>data = [JObj [(''valid'', JBool True)]], model = JNull\<rparr>"
      "Update 0 (JObj [(''valid'', JNum 7)])" "[]" None JNull] h e
  show ?thesis by simp
qed

text \<open>
  Claim C10 says that \<^verbatim>\<open>create(null)\<close> rejects with the \<^verbatim>\<open>TypeError\<close>. No promise is
  returned: the exception leaves \<^verbatim>\<open>create\<close> as it is.
\<close>

theorem create_null_not_rejected:
  "fst (create (constructor (JObj [])) JNull) = Thrown TypeError
   \<and> fst (create (constructor (JObj [])) JNull) \<noteq> Rejected TypeError"
  by (simp add: create_def validate_def)

text \<open>
  Claim C10, amended. For \<^verbatim>\<open>null\<close> and \<^verbatim>\<open>undefined\<close>, \<^verbatim>\<open>validate\<close> raises a \<^verbatim>\<open>TypeError\<close>
  instead of returning the status 400 error, and \<^verbatim>\<open>create\<close> raises that \<^verbatim>\<open>TypeError\<close>
  to its caller, leaving the store unchanged; for an object \<^verbatim>\<open>validate\<close> returns
  \<^verbatim>\<open>null\<close> or the status 400 error and never raises.
\<close>

theorem validate_null_throws:
  "validate JNull = Inl TypeError \<and> validate JUndefined = Inl TypeError
   \<and> create s JNull = (Thrown TypeError, s) \<and> create s JUndefined = (Thrown TypeError, s)
   \<and> status InvalidData = 400 \<and> TypeError \<noteq> InvalidData
   \<and> (validate (JObj fs) = Inr None \<or> validate (JObj fs) = Inr (Some InvalidData))"
  by (simp add: create_def validate_def InvalidData_def)

end
